theory Spec2Isabelle
  imports Complex_Main "HOL-Library.Word"
begin

section \<open>Python values and exceptions\<close>

text \<open>
  The development embeds \<^verbatim>\<open>BehaviorSync.make\<close> of
  \<^verbatim>\<open>u19_pipeline/ephys_element.py\<close>. Every exception the function can raise is
  a value: the built-in exceptions that the statements of \<^verbatim>\<open>make\<close>
  themselves raise (indexing an empty list or a missing row, a missing dictionary key,
  a failed conversion of a string to a float or of a float to an integer), and
  \<open>HelperError\<close>, with the name of the exception, for anything raised inside a
  function that \<^verbatim>\<open>make\<close> calls or by the database.
\<close>

datatype error = IndexError | KeyError | ValueError | OverflowError | HelperError string

fun bindE :: "error + 'a \<Rightarrow> ('a \<Rightarrow> error + 'b) \<Rightarrow> error + 'b" where
  "bindE (Inl e) f = Inl e"
| "bindE (Inr x) f = f x"

text \<open>
  A Python \<^verbatim>\<open>float\<close> is a finite value, an infinity or a NaN. Finite values are
  identified with the real number they denote (the sign of zero plays no role below).
\<close>

datatype pyfloat = Fin real | PInf | NInf | NaN

text \<open>
  The product of two floats. A NaN operand gives NaN, zero times an infinity gives NaN,
  a product with a zero operand is exactly zero, and any other finite product is the
  exact product rounded by the machine: the rounding \<open>rnd\<close> is a parameter (it may also
  overflow to an infinity).
\<close>

fun fmul :: "(real \<Rightarrow> pyfloat) \<Rightarrow> pyfloat \<Rightarrow> pyfloat \<Rightarrow> pyfloat" where
  "fmul rnd NaN b = NaN"
| "fmul rnd a NaN = NaN"
| "fmul rnd (Fin x) (Fin y) = (if x = 0 \<or> y = 0 then Fin 0 else rnd (x * y))"
| "fmul rnd (Fin x) PInf = (if x = 0 then NaN else if 0 < x then PInf else NInf)"
| "fmul rnd (Fin x) NInf = (if x = 0 then NaN else if 0 < x then NInf else PInf)"
| "fmul rnd PInf (Fin y) = (if y = 0 then NaN else if 0 < y then PInf else NInf)"
| "fmul rnd NInf (Fin y) = (if y = 0 then NaN else if 0 < y then NInf else PInf)"
| "fmul rnd PInf PInf = PInf"
| "fmul rnd PInf NInf = NInf"
| "fmul rnd NInf PInf = NInf"
| "fmul rnd NInf NInf = PInf"

text \<open>
  \<^verbatim>\<open>int(x)\<close> on a float truncates towards zero; it raises \<^verbatim>\<open>OverflowError\<close> on an
  infinity and \<^verbatim>\<open>ValueError\<close> on a NaN.
\<close>

fun py_int :: "pyfloat \<Rightarrow> error + int" where
  "py_int (Fin x) = Inr (if 0 \<le> x then \<lfloor>x\<rfloor> else \<lceil>x\<rceil>)"
| "py_int PInf = Inl OverflowError"
| "py_int NInf = Inl OverflowError"
| "py_int NaN = Inl ValueError"

text \<open>
  A value of the dictionary returned by \<^verbatim>\<open>readMeta\<close>: Python is dynamically typed,
  so a value is a string or a number. \<^verbatim>\<open>np.float\<close> (the built-in \<^verbatim>\<open>float\<close>)
  returns a number unchanged and parses a string, raising \<^verbatim>\<open>ValueError\<close> when the
  string is not a numeral. The parser of the language runtime is the parameter
  \<open>float_of_str\<close>.
\<close>

datatype metaval = Str string | Num pyfloat

type_synonym meta = "string \<rightharpoonup> metaval"

fun np_float :: "(string \<Rightarrow> pyfloat option) \<Rightarrow> metaval \<Rightarrow> error + pyfloat" where
  "np_float float_of_str (Num x) = Inr x"
| "np_float float_of_str (Str s) =
     (case float_of_str s of None \<Rightarrow> Inl ValueError | Some x \<Rightarrow> Inr x)"

definition getitem :: "meta \<Rightarrow> string \<Rightarrow> error + metaval" where
  "getitem m k = (case m k of None \<Rightarrow> Inl KeyError | Some v \<Rightarrow> Inr v)"

text \<open>\<^verbatim>\<open>xs[0]\<close> on the list made from a glob: \<^verbatim>\<open>IndexError\<close> when nothing matched.\<close>

fun first_match :: "'a list \<Rightarrow> error + 'a" where
  "first_match [] = Inl IndexError"
| "first_match (x # xs) = Inr x"

text \<open>The decimal numeral that \<^verbatim>\<open>str.format\<close> prints for a natural number.\<close>

fun str_nat :: "nat \<Rightarrow> string" where
  "str_nat n =
     (if n < 10 then [''0123456789'' ! n]
      else str_nat (n div 10) @ [''0123456789'' ! (n mod 10)])"

declare str_nat.simps [simp del]

section \<open>Tables, keys and the environment of a run\<close>

text \<open>
  A session key is the dictionary of primary-key attributes that DataJoint hands to
  \<^verbatim>\<open>make\<close>; a probe insertion key extends it by the insertion number.
\<close>

type_synonym key = "(string \<times> string) list"

record probe_insertion =
  session_key :: key
  insertion_number :: nat

text \<open>
  The rows that \<^verbatim>\<open>make\<close> hands to \<^verbatim>\<open>insert1\<close>: one row of
  \<^verbatim>\<open>BehaviorSync\<close> and, per probe, one row for the part table
  \<^verbatim>\<open>ImecSamplingRate\<close>. The row for the part table holds the value of
  \<^verbatim>\<open>imec_meta['imSampRate']\<close> as \<^verbatim>\<open>readMeta\<close> returned it. The column
  \<^verbatim>\<open>ephys_sampling_rate\<close> is declared \<^verbatim>\<open>float\<close>, so what the table stores is a
  float: \<open>imec_stored\<close> is a row of the table.
\<close>

record sync_row =
  row_key :: key
  nidq_sampling_rate :: pyfloat
  iteration_index_nidq :: "int list"

record imec_row =
  row_probe :: probe_insertion
  ephys_sampling_rate :: metaval

record imec_stored =
  stored_probe :: probe_insertion
  stored_rate :: pyfloat

record tables =
  BehaviorSync :: "sync_row list"
  ImecSamplingRate :: "imec_stored list"

text \<open>
  The raw recording is a matrix of signed 16-bit samples, one row per channel; the
  digital array returned by \<^verbatim>\<open>ExtractDigital\<close> has one row per requested line.
\<close>

type_synonym raw = "16 word list list"

type_synonym digital = "int list list"

text \<open>
  Everything \<^verbatim>\<open>make\<close> reads from outside: the database queries, the file system
  and the four functions of \<^verbatim>\<open>readSGLX\<close>, whose source is not part of the file under
  study. They are parameters, so every theorem below holds for every behaviour of
  theirs. A function that can raise returns a sum. \<open>float_column\<close> is what the
  database does with a value inserted into a column declared \<^verbatim>\<open>float\<close>: it gives
  the float that is stored, or the exception that the insert raises when the value is
  not numeric.
\<close>

record env =
  fetch1_ephys_directory :: "key \<Rightarrow> error + string"
  fetch_probe_insertions :: "key \<Rightarrow> probe_insertion list"
  glob :: "string \<Rightarrow> string \<Rightarrow> string list"
  readMeta :: "string \<Rightarrow> error + meta"
  SampRate :: "meta \<Rightarrow> error + pyfloat"
  makeMemMapRaw :: "string \<Rightarrow> meta \<Rightarrow> error + raw"
  ExtractDigital :: "raw \<Rightarrow> int \<Rightarrow> int \<Rightarrow> int \<Rightarrow> int list \<Rightarrow> meta \<Rightarrow> error + digital"
  float_of_str :: "string \<Rightarrow> pyfloat option"
  rnd :: "real \<Rightarrow> pyfloat"
  float_column :: "metaval \<Rightarrow> error + pyfloat"

section \<open>Edge detection (line 108)\<close>

text \<open>
  \<^verbatim>\<open>np.where(np.abs(np.diff(np.double(digital_array[1, :]))) > 0.5)[0]\<close>.
  \<^verbatim>\<open>np.double\<close> converts the integer samples to floats (exactly: the samples of a
  digital line are far below \<open>2 ^ 53\<close>), \<^verbatim>\<open>np.diff\<close> gives the differences of
  consecutive samples, and \<^verbatim>\<open>np.where\<close> the positions that hold \<^verbatim>\<open>True\<close>, in
  ascending order.
\<close>

definition np_double :: "int list \<Rightarrow> real list" where
  "np_double xs = map real_of_int xs"

fun np_diff :: "real list \<Rightarrow> real list" where
  "np_diff (x # y # zs) = (y - x) # np_diff (y # zs)"
| "np_diff [x] = []"
| "np_diff [] = []"

definition np_abs_gt :: "real list \<Rightarrow> real \<Rightarrow> bool list" where
  "np_abs_gt ds t = map (\<lambda>d. \<bar>d\<bar> > t) ds"

definition np_where :: "bool list \<Rightarrow> int list" where
  "np_where bs = map int (filter (\<lambda>i. bs ! i) [0..<length bs])"

definition edges :: "int list \<Rightarrow> int list" where
  "edges trace = np_where (np_abs_gt (np_diff (np_double trace)) (1/2))"

text \<open>\<^verbatim>\<open>digital_array[1, :]\<close> raises \<^verbatim>\<open>IndexError\<close> when there is no row 1.\<close>

fun row1 :: "digital \<Rightarrow> error + int list" where
  "row1 (r0 # r1 # rs) = Inr r1"
| "row1 rs = Inl IndexError"

definition iteration_index :: "digital \<Rightarrow> error + int list" where
  "iteration_index digital_array = bindE (row1 digital_array) (\<lambda>r. Inr (edges r))"

section \<open>The primary stream (lines 87 to 112)\<close>

text \<open>
  \<^verbatim>\<open>get_session_directory\<close> fetches the directory of the session; the directory is
  kept as the string that the query returns.
\<close>

definition get_session_directory :: "env \<Rightarrow> key \<Rightarrow> error + string" where
  "get_session_directory e k = fetch1_ephys_directory e k"

text \<open>The arguments of the call of \<^verbatim>\<open>ExtractDigital\<close> at lines 105 to 107.\<close>

record extract_call =
  call_raw :: raw
  first_sample_index :: int
  last_sample_index :: int
  dw :: int
  d_line_list :: "int list"
  call_meta :: meta

text \<open>
  Lines 88 to 102, in the order of the source: the first file matching
  \<^verbatim>\<open>*nidq.bin*\<close> in the session directory, its metadata, \<^verbatim>\<open>t_end\<close>, the
  sampling rate, the two sample indices (\<^verbatim>\<open>t_start\<close> is the constant 0) and the
  memory map. The result is the sampling rate and the arguments handed to
  \<^verbatim>\<open>ExtractDigital\<close>.
\<close>

definition prepare :: "env \<Rightarrow> string \<Rightarrow> error + (pyfloat \<times> extract_call)" where
  "prepare e session_dir =
     bindE (first_match (glob e session_dir ''*nidq.bin*'')) (\<lambda>nidq_bin_full_path.
     bindE (readMeta e nidq_bin_full_path) (\<lambda>nidq_meta.
     bindE (getitem nidq_meta ''fileTimeSecs'') (\<lambda>v.
     bindE (np_float (float_of_str e) v) (\<lambda>t_end.
     bindE (SampRate e nidq_meta) (\<lambda>rate.
     bindE (py_int (fmul (rnd e) rate (Fin 0))) (\<lambda>first.
     bindE (py_int (fmul (rnd e) rate t_end)) (\<lambda>l.
     bindE (makeMemMapRaw e nidq_bin_full_path nidq_meta) (\<lambda>nidq_raw_data.
       Inr (rate,
         \<lparr>call_raw = nidq_raw_data, first_sample_index = first,
          last_sample_index = l - 1, dw = 0, d_line_list = [0, 1, 2, 3, 4, 5, 6, 7],
          call_meta = nidq_meta\<rparr>)))))))))"

definition call_ExtractDigital :: "env \<Rightarrow> extract_call \<Rightarrow> error + digital" where
  "call_ExtractDigital e c =
     ExtractDigital e (call_raw c) (first_sample_index c) (last_sample_index c)
       (dw c) (d_line_list c) (call_meta c)"

text \<open>Lines 105 to 107: the sampling rate and the digital array.\<close>

definition digital_array_of :: "env \<Rightarrow> string \<Rightarrow> error + (pyfloat \<times> digital)" where
  "digital_array_of e session_dir =
     bindE (prepare e session_dir) (\<lambda>(rate, c).
     bindE (call_ExtractDigital e c) (\<lambda>digital_array. Inr (rate, digital_array)))"

text \<open>Lines 108 to 112: the row handed to \<^verbatim>\<open>self.insert1\<close>.\<close>

definition primary :: "env \<Rightarrow> string \<Rightarrow> key \<Rightarrow> error + sync_row" where
  "primary e session_dir k =
     bindE (digital_array_of e session_dir) (\<lambda>(rate, digital_array).
     bindE (iteration_index digital_array) (\<lambda>idx.
       Inr \<lparr>row_key = k, nidq_sampling_rate = rate, iteration_index_nidq = idx\<rparr>))"

section \<open>The probe streams (lines 114 to 121) and \<^verbatim>\<open>make\<close>\<close>

definition imec_pattern :: "probe_insertion \<Rightarrow> string" where
  "imec_pattern p = ''*imec'' @ str_nat (insertion_number p) @ ''/*.ap.bin''"

text \<open>
  Lines 116 to 121, up to the call of \<^verbatim>\<open>insert1\<close>: the first file matching the
  probe's pattern, its metadata, and the row with the value under \<^verbatim>\<open>imSampRate\<close>.
\<close>

definition imec_row_of :: "env \<Rightarrow> string \<Rightarrow> probe_insertion \<Rightarrow> error + imec_row" where
  "imec_row_of e session_dir p =
     bindE (first_match (glob e session_dir (imec_pattern p))) (\<lambda>imec_bin_filepath.
     bindE (readMeta e imec_bin_filepath) (\<lambda>imec_meta.
     bindE (getitem imec_meta ''imSampRate'') (\<lambda>v.
       Inr \<lparr>row_probe = p, ephys_sampling_rate = v\<rparr>)))"

text \<open>
  \<^verbatim>\<open>self.ImecSamplingRate.insert1\<close>: the float column converts the value handed
  over; when it raises, nothing is stored.
\<close>

definition insert1_imec :: "env \<Rightarrow> imec_row \<Rightarrow> tables \<Rightarrow> error + tables" where
  "insert1_imec e r t =
     bindE (float_column e (ephys_sampling_rate r)) (\<lambda>x.
       Inr (t\<lparr>ImecSamplingRate :=
                ImecSamplingRate t @ [\<lparr>stored_probe = row_probe r, stored_rate = x\<rparr>]\<rparr>))"

text \<open>
  The loop. An exception leaves the loop and \<^verbatim>\<open>make\<close> at once; the rows inserted
  so far stay in the tables that the function returns beside the exception.
\<close>

fun probe_loop :: "env \<Rightarrow> string \<Rightarrow> probe_insertion list \<Rightarrow> tables \<Rightarrow> (error + unit) \<times> tables" where
  "probe_loop e session_dir [] t = (Inr (), t)"
| "probe_loop e session_dir (p # ps) t =
     (case bindE (imec_row_of e session_dir p) (\<lambda>r. insert1_imec e r t) of
        Inl err \<Rightarrow> (Inl err, t)
      | Inr t' \<Rightarrow> probe_loop e session_dir ps t')"

text \<open>
  \<^verbatim>\<open>make\<close>: the session directory is fetched, the primary row is computed and
  inserted, then the loop runs over the probe insertions of the session. The result is
  how the call ends (\<open>Inr ()\<close> for a normal return, \<open>Inl\<close> for the exception that
  leaves it) and the tables at that moment. \<^verbatim>\<open>self.insert1\<close> appends the primary
  row: its sampling rate is a finite float (line 98 has raised otherwise) and its index
  an integer array, which the declared columns take as they are.
\<close>

definition make :: "env \<Rightarrow> key \<Rightarrow> tables \<Rightarrow> (error + unit) \<times> tables" where
  "make e k t =
     (case get_session_directory e k of
        Inl err \<Rightarrow> (Inl err, t)
      | Inr session_dir \<Rightarrow>
          (case primary e session_dir k of
             Inl err \<Rightarrow> (Inl err, t)
           | Inr r \<Rightarrow>
               probe_loop e session_dir (fetch_probe_insertions e k)
                 (t\<lparr>BehaviorSync := BehaviorSync t @ [r]\<rparr>)))"

section \<open>The statements under study, in their own words\<close>

text \<open>
  The edge indices as the specification words them: every index \<open>i\<close> with
  \<^verbatim>\<open>abs(trace[i] - trace[i-1]) > 0.5\<close>, in ascending order. It is compared with
  \<open>edges\<close>, the translation of the source.
\<close>

definition spec_edges :: "int list \<Rightarrow> int list" where
  "spec_edges trace =
     map int (filter (\<lambda>i. \<bar>real_of_int (trace ! i) - real_of_int (trace ! (i - 1))\<bar> > 1/2)
       [1..<length trace])"




section \<open>Example sessions\<close>

text \<open>
  Modelled from the spec: \<^verbatim>\<open>readSGLX.ExtractDigital\<close> is not part of the file under
  study. Section 4.3 of the specification describes it: the logic value of line \<open>l\<close> in
  word \<open>w\<close> is \<^verbatim>\<open>(w >> l) & 1\<close>, one trace per requested line over the sample range,
  \<^verbatim>\<open>RangeError\<close> when the range exceeds the recording and \<^verbatim>\<open>InvalidLineError\<close>
  when a line is outside the 16 bits of the word. It only serves as the extractor of the
  example sessions below; no general theorem depends on it.
\<close>

definition bits :: "16 word list \<Rightarrow> int \<Rightarrow> int list" where
  "bits ws l = map (\<lambda>w. if bit w (nat l) then 1 else 0) ws"

definition ExtractDigital_spec ::
  "raw \<Rightarrow> int \<Rightarrow> int \<Rightarrow> int \<Rightarrow> int list \<Rightarrow> meta \<Rightarrow> error + digital" where
  "ExtractDigital_spec rawData firstSamp lastSamp dwReq dLineList m =
     (if dwReq < 0 \<or> int (length rawData) \<le> dwReq then Inl (HelperError ''RangeError'')
      else if firstSamp < 0 \<or> int (length (rawData ! nat dwReq)) \<le> lastSamp
        then Inl (HelperError ''RangeError'')
      else if list_ex (\<lambda>l. l < 0 \<or> 15 < l) dLineList
        then Inl (HelperError ''InvalidLineError'')
      else Inr (map (bits (take (nat (lastSamp + 1 - firstSamp))
                             (drop (nat firstSamp) (rawData ! nat dwReq))))
                 dLineList))"

text \<open>
  A session with a primary stream of eight samples (two seconds at 4 Hz) and two probes.
  The only channel of the recording is the digital word; its bit 1 reads
  \<open>0 1 1 0 1 0 0 1\<close>.
\<close>

definition demo_float :: "string \<Rightarrow> pyfloat option" where
  "demo_float =
     map_of [(''0'', Fin 0), (''2'', Fin 2), (''4'', Fin 4), (''10.0'', Fin 10),
             (''1000'', Fin 1000), (''30000'', Fin 30000)]"

definition demo_nidq_meta :: meta where
  "demo_nidq_meta = map_of [(''fileTimeSecs'', Str ''2''), (''niSampRate'', Str ''4'')]"

definition demo_imec_meta :: meta where
  "demo_imec_meta = map_of [(''imSampRate'', Str ''30000'')]"

definition demo_glob :: "string \<Rightarrow> string \<Rightarrow> string list" where
  "demo_glob d pat =
     (if pat = ''*nidq.bin*'' then [''a.nidq.bin'']
      else if pat = ''*imec0/*.ap.bin'' then [''imec0/a.ap.bin'']
      else if pat = ''*imec1/*.ap.bin'' then [''imec1/a.ap.bin'']
      else [])"

definition demo_readMeta :: "string \<Rightarrow> error + meta" where
  "demo_readMeta f =
     (if f = ''a.nidq.bin'' then Inr demo_nidq_meta
      else if f = ''imec0/a.ap.bin'' \<or> f = ''imec1/a.ap.bin'' then Inr demo_imec_meta
      else Inr Map.empty)"

definition demo_SampRate :: "meta \<Rightarrow> error + pyfloat" where
  "demo_SampRate m = bindE (getitem m ''niSampRate'') (np_float demo_float)"

fun demo_column :: "metaval \<Rightarrow> error + pyfloat" where
  "demo_column (Num x) = Inr x"
| "demo_column (Str s) =
     (case demo_float s of None \<Rightarrow> Inl (HelperError ''DataError'') | Some x \<Rightarrow> Inr x)"

definition demo_env :: env where
  "demo_env =
     \<lparr>fetch1_ephys_directory = (\<lambda>k. Inr ''dir''),
      fetch_probe_insertions =
        (\<lambda>k. [\<lparr>session_key = k, insertion_number = 0\<rparr>,
              \<lparr>session_key = k, insertion_number = Suc 0\<rparr>]),
      glob = demo_glob,
      readMeta = demo_readMeta,
      SampRate = demo_SampRate,
      makeMemMapRaw = (\<lambda>f m. Inr [[0, 2, 2, 0, 3, 1, 0, 2]]),
      ExtractDigital = ExtractDigital_spec,
      float_of_str = demo_float,
      rnd = Fin,
      float_column = demo_column\<rparr>"

definition no_tables :: tables where
  "no_tables = \<lparr>BehaviorSync = [], ImecSamplingRate = []\<rparr>"

definition demo_row :: "key \<Rightarrow> sync_row" where
  "demo_row k = \<lparr>row_key = k, nidq_sampling_rate = Fin 4, iteration_index_nidq = [0, 2, 3, 4, 6]\<rparr>"

definition demo_probe :: "key \<Rightarrow> nat \<Rightarrow> probe_insertion" where
  "demo_probe k n = \<lparr>session_key = k, insertion_number = n\<rparr>"

text \<open>The same session with the binary file of probe 0, or of probe 1, missing.\<close>

definition env_missing0 :: env where
  "env_missing0 =
     demo_env\<lparr>glob := (\<lambda>d pat. if pat = ''*imec0/*.ap.bin'' then [] else demo_glob d pat)\<rparr>"

definition env_missing1 :: env where
  "env_missing1 =
     demo_env\<lparr>glob := (\<lambda>d pat. if pat = ''*imec1/*.ap.bin'' then [] else demo_glob d pat)\<rparr>"

text \<open>
  The same session with a value that is not a numeral: under \<^verbatim>\<open>fileTimeSecs\<close> of
  the primary sidecar, or under \<^verbatim>\<open>imSampRate\<close> of the sidecar of probe 0.
\<close>

definition env_bad_time :: env where
  "env_bad_time =
     demo_env\<lparr>readMeta := (\<lambda>f.
       if f = ''a.nidq.bin''
       then Inr (map_of [(''fileTimeSecs'', Str ''abc''), (''niSampRate'', Str ''4'')])
       else demo_readMeta f)\<rparr>"

definition env_bad_rate :: env where
  "env_bad_rate =
     demo_env\<lparr>readMeta := (\<lambda>f.
       if f = ''imec0/a.ap.bin'' then Inr (map_of [(''imSampRate'', Str ''abc'')])
       else demo_readMeta f)\<rparr>"

text \<open>
  The same session with a line 1 that never changes, with a recording of zero seconds,
  and with another recording that agrees with the first one on bit 1 only.
\<close>

definition env_flat :: env where
  "env_flat = demo_env\<lparr>makeMemMapRaw := (\<lambda>f m. Inr [[0, 1, 1, 0, 1, 0, 0, 1]])\<rparr>"

definition zero_meta :: meta where
  "zero_meta = map_of [(''fileTimeSecs'', Str ''0''), (''niSampRate'', Str ''4'')]"

definition env_zero_time :: env where
  "env_zero_time =
     demo_env\<lparr>readMeta := (\<lambda>f. if f = ''a.nidq.bin'' then Inr zero_meta else demo_readMeta f)\<rparr>"

definition env_other_lines :: env where
  "env_other_lines = demo_env\<lparr>makeMemMapRaw := (\<lambda>f m. Inr [[4, 6, 7, 5, 2, 1, 0, 3]])\<rparr>"




section \<open>Auxiliary facts\<close>

lemma bindE_Inr_iff: "bindE m f = Inr y \<longleftrightarrow> (\<exists>x. m = Inr x \<and> f x = Inr y)"
  by (cases m) auto

lemma length_np_diff: "length (np_diff xs) = length xs - 1"
  by (induction xs rule: np_diff.induct) auto

lemma nth_np_diff: "Suc i < length xs \<Longrightarrow> np_diff xs ! i = xs ! Suc i - xs ! i"
proof (induction xs arbitrary: i rule: np_diff.induct)
  case (1 x y zs)
  then show ?case by (cases i) auto
qed auto

lemma edges_eq:
  "edges trace =
     map int (filter (\<lambda>j. \<bar>real_of_int (trace ! Suc j) - real_of_int (trace ! j)\<bar> > 1/2)
       [0..<length trace - 1])"
  unfolding edges_def np_where_def np_abs_gt_def np_double_def
  by (auto simp: length_np_diff nth_np_diff intro!: filter_cong)

lemma edges_spec_edges: "edges trace = map (\<lambda>i. i - 1) (spec_edges trace)"
proof -
  have "[1..<length trace] = map Suc [0..<length trace - 1]"
    by (cases "length trace") (simp_all add: map_Suc_upt)
  then show ?thesis
    by (simp add: edges_eq spec_edges_def filter_map comp_def)
qed

lemma edges_sorted: "sorted_wrt (<) (edges trace)"
  by (simp add: edges_eq sorted_wrt_map sorted_wrt_filter)

lemma edges_nonneg: "i \<in> set (edges trace) \<Longrightarrow> 0 \<le> i"
  by (auto simp: edges_eq)

lemma primary_Inr_iff:
  "primary e d k = Inr r \<longleftrightarrow>
     (\<exists>rate a tr. digital_array_of e d = Inr (rate, a) \<and> row1 a = Inr tr \<and>
        r = \<lparr>row_key = k, nidq_sampling_rate = rate, iteration_index_nidq = edges tr\<rparr>)"
  by (auto simp: primary_def iteration_index_def bindE_Inr_iff)

subsection \<open>The example sessions, evaluated\<close>

lemma str_nat_0: "str_nat 0 = ''0''"
  by (simp add: str_nat.simps)

lemma str_nat_1: "str_nat (Suc 0) = ''1''"
  by (simp add: str_nat.simps)

lemma demo_fields:
  "fetch1_ephys_directory demo_env k = Inr ''dir''"
  "fetch_probe_insertions demo_env k = [demo_probe k 0, demo_probe k (Suc 0)]"
  "glob demo_env = demo_glob"
  "readMeta demo_env = demo_readMeta"
  "SampRate demo_env = demo_SampRate"
  "makeMemMapRaw demo_env = (\<lambda>f m. Inr [[0, 2, 2, 0, 3, 1, 0, 2]])"
  "ExtractDigital demo_env = ExtractDigital_spec"
  "float_of_str demo_env = demo_float"
  "rnd demo_env = Fin"
  "float_column demo_env = demo_column"
  by (simp_all add: demo_env_def demo_probe_def)

lemmas demo_unfold =
  demo_fields demo_glob_def demo_readMeta_def demo_SampRate_def demo_nidq_meta_def
  demo_imec_meta_def demo_float_def getitem_def

lemmas primary_unfold =
  primary_def digital_array_of_def prepare_def call_ExtractDigital_def iteration_index_def
  edges_def np_where_def np_abs_gt_def np_double_def ExtractDigital_spec_def bits_def

lemmas probe_unfold = imec_row_of_def imec_pattern_def demo_probe_def str_nat_0 str_nat_1

lemma demo_digital:
  "digital_array_of demo_env ''dir'' = Inr (Fin 4,
     [[0, 0, 0, 0, 1, 1, 0, 0], [0, 1, 1, 0, 1, 0, 0, 1], [0, 0, 0, 0, 0, 0, 0, 0],
      [0, 0, 0, 0, 0, 0, 0, 0], [0, 0, 0, 0, 0, 0, 0, 0], [0, 0, 0, 0, 0, 0, 0, 0],
      [0, 0, 0, 0, 0, 0, 0, 0], [0, 0, 0, 0, 0, 0, 0, 0]])"
  by (simp add: primary_unfold demo_unfold)

lemma demo_primary: "primary demo_env ''dir'' k = Inr (demo_row k)"
  by (simp add: primary_def demo_digital iteration_index_def edges_def np_where_def
      np_abs_gt_def np_double_def demo_row_def)

lemma demo_imec_rows:
  "imec_row_of demo_env ''dir'' (demo_probe k 0) =
     Inr \<lparr>row_probe = demo_probe k 0, ephys_sampling_rate = Str ''30000''\<rparr>"
  "imec_row_of demo_env ''dir'' (demo_probe k (Suc 0)) =
     Inr \<lparr>row_probe = demo_probe k (Suc 0), ephys_sampling_rate = Str ''30000''\<rparr>"
  by (simp_all add: probe_unfold demo_unfold)

lemma demo_make:
  "make demo_env k no_tables =
     (Inr (),
      \<lparr>BehaviorSync = [demo_row k],
       ImecSamplingRate =
         [\<lparr>stored_probe = demo_probe k 0, stored_rate = Fin 30000\<rparr>,
          \<lparr>stored_probe = demo_probe k (Suc 0), stored_rate = Fin 30000\<rparr>]\<rparr>)"
  by (simp add: make_def get_session_directory_def demo_fields demo_primary demo_imec_rows
      insert1_imec_def demo_float_def no_tables_def)

lemma missing0_primary: "primary env_missing0 ''dir'' k = Inr (demo_row k)"
  by (simp add: env_missing0_def primary_unfold demo_unfold demo_row_def)

lemma missing1_primary: "primary env_missing1 ''dir'' k = Inr (demo_row k)"
  by (simp add: env_missing1_def primary_unfold demo_unfold demo_row_def)

lemma missing1_row0:
  "imec_row_of env_missing1 ''dir'' (demo_probe k 0) =
     Inr \<lparr>row_probe = demo_probe k 0, ephys_sampling_rate = Str ''30000''\<rparr>"
  by (simp add: env_missing1_def probe_unfold demo_unfold)

lemma bad_rate_primary: "primary env_bad_rate ''dir'' k = Inr (demo_row k)"
  by (simp add: env_bad_rate_def primary_unfold demo_unfold demo_row_def)

lemma flat_digital:
  "digital_array_of env_flat ''dir'' = Inr (Fin 4,
     [[0, 1, 1, 0, 1, 0, 0, 1], [0, 0, 0, 0, 0, 0, 0, 0], [0, 0, 0, 0, 0, 0, 0, 0],
      [0, 0, 0, 0, 0, 0, 0, 0], [0, 0, 0, 0, 0, 0, 0, 0], [0, 0, 0, 0, 0, 0, 0, 0],
      [0, 0, 0, 0, 0, 0, 0, 0], [0, 0, 0, 0, 0, 0, 0, 0]])"
  by (simp add: env_flat_def primary_unfold demo_unfold)

lemma other_lines_digital:
  "digital_array_of env_other_lines ''dir'' = Inr (Fin 4,
     [[0, 0, 1, 1, 0, 1, 0, 1], [0, 1, 1, 0, 1, 0, 0, 1], [1, 1, 1, 1, 0, 0, 0, 0],
      [0, 0, 0, 0, 0, 0, 0, 0], [0, 0, 0, 0, 0, 0, 0, 0], [0, 0, 0, 0, 0, 0, 0, 0],
      [0, 0, 0, 0, 0, 0, 0, 0], [0, 0, 0, 0, 0, 0, 0, 0]])"
  by (simp add: env_other_lines_def primary_unfold demo_unfold)

subsection \<open>The probe loop\<close>

lemma imec_row_of_Inr_iff:
  "imec_row_of e d p = Inr r \<longleftrightarrow>
     (\<exists>f fs m v. glob e d (imec_pattern p) = f # fs \<and> readMeta e f = Inr m \<and>
        m ''imSampRate'' = Some v \<and> r = \<lparr>row_probe = p, ephys_sampling_rate = v\<rparr>)"
proof (cases "glob e d (imec_pattern p)")
  case Nil
  then show ?thesis by (simp add: imec_row_of_def)
next
  case (Cons f fs)
  then show ?thesis
    by (auto simp: imec_row_of_def bindE_Inr_iff getitem_def split: option.splits)
qed

lemma insert1_imec_Inr_iff:
  "insert1_imec e r t = Inr t' \<longleftrightarrow>
     (\<exists>x. float_column e (ephys_sampling_rate r) = Inr x \<and>
        t' = t\<lparr>ImecSamplingRate :=
                 ImecSamplingRate t @ [\<lparr>stored_probe = row_probe r, stored_rate = x\<rparr>]\<rparr>)"
  by (auto simp: insert1_imec_def bindE_Inr_iff)

lemma probe_step_Inr_iff:
  "bindE (imec_row_of e d p) (\<lambda>r. insert1_imec e r t) = Inr t' \<longleftrightarrow>
     (\<exists>f fs m v x. glob e d (imec_pattern p) = f # fs \<and> readMeta e f = Inr m \<and>
        m ''imSampRate'' = Some v \<and> float_column e v = Inr x \<and>
        t' = t\<lparr>ImecSamplingRate :=
                 ImecSamplingRate t @ [\<lparr>stored_probe = p, stored_rate = x\<rparr>]\<rparr>)"
  (is "?L \<longleftrightarrow> ?R")
proof
  assume ?L
  then obtain r where r: "imec_row_of e d p = Inr r" and i: "insert1_imec e r t = Inr t'"
    by (auto simp: bindE_Inr_iff)
  from r obtain f fs m v where c: "glob e d (imec_pattern p) = f # fs" "readMeta e f = Inr m"
      "m ''imSampRate'' = Some v" "r = \<lparr>row_probe = p, ephys_sampling_rate = v\<rparr>"
    by (auto simp: imec_row_of_Inr_iff)
  from i c(4) obtain x where "float_column e v = Inr x"
      "t' = t\<lparr>ImecSamplingRate :=
                 ImecSamplingRate t @ [\<lparr>stored_probe = p, stored_rate = x\<rparr>]\<rparr>"
    by (auto simp: insert1_imec_Inr_iff)
  with c(1-3) show ?R by blast
next
  assume ?R
  then obtain f fs m v x where c: "glob e d (imec_pattern p) = f # fs" "readMeta e f = Inr m"
      "m ''imSampRate'' = Some v" "float_column e v = Inr x"
      "t' = t\<lparr>ImecSamplingRate :=
                 ImecSamplingRate t @ [\<lparr>stored_probe = p, stored_rate = x\<rparr>]\<rparr>"
    by blast
  from c(1-3) have "imec_row_of e d p = Inr \<lparr>row_probe = p, ephys_sampling_rate = v\<rparr>"
    unfolding imec_row_of_Inr_iff by blast
  moreover from c(4,5) have
    "insert1_imec e \<lparr>row_probe = p, ephys_sampling_rate = v\<rparr> t = Inr t'"
    by (simp add: insert1_imec_Inr_iff)
  ultimately show ?L by simp
qed

lemma probe_loop_Cons_Inr_iff:
  "probe_loop e d (p # ps) t = (Inr (), t') \<longleftrightarrow>
     (\<exists>t1. bindE (imec_row_of e d p) (\<lambda>r. insert1_imec e r t) = Inr t1 \<and>
        probe_loop e d ps t1 = (Inr (), t'))"
  by (cases "bindE (imec_row_of e d p) (\<lambda>r. insert1_imec e r t)") simp_all

lemma probe_loop_Inr_iff:
  "probe_loop e d ps t = (Inr (), t') \<longleftrightarrow>
     (\<exists>rows. t' = t\<lparr>ImecSamplingRate := ImecSamplingRate t @ rows\<rparr> \<and>
        list_all2 (\<lambda>p r. stored_probe r = p \<and>
          (\<exists>f fs m v. glob e d (imec_pattern p) = f # fs \<and> readMeta e f = Inr m \<and>
             m ''imSampRate'' = Some v \<and> float_column e v = Inr (stored_rate r))) ps rows)"
  (is "?L ps t \<longleftrightarrow> (\<exists>rows. ?T t rows \<and> list_all2 ?C ps rows)")
proof (induction ps arbitrary: t)
  case Nil
  show ?case by auto
next
  case (Cons p ps)
  show ?case
  proof
    assume "?L (p # ps) t"
    then obtain t1 where step: "bindE (imec_row_of e d p) (\<lambda>r. insert1_imec e r t) = Inr t1"
      and rest: "probe_loop e d ps t1 = (Inr (), t')"
      unfolding probe_loop_Cons_Inr_iff by blast
    from step obtain f fs m v x where cap:
      "glob e d (imec_pattern p) = f # fs" "readMeta e f = Inr m" "m ''imSampRate'' = Some v"
      "float_column e v = Inr x"
      and t1: "t1 = t\<lparr>ImecSamplingRate :=
                 ImecSamplingRate t @ [\<lparr>stored_probe = p, stored_rate = x\<rparr>]\<rparr>"
      by (auto simp: probe_step_Inr_iff)
    from rest Cons.IH[of t1] obtain rows where
      rows: "t' = t1\<lparr>ImecSamplingRate := ImecSamplingRate t1 @ rows\<rparr>" "list_all2 ?C ps rows"
      by auto
    have "?T t (\<lparr>stored_probe = p, stored_rate = x\<rparr> # rows)"
      using rows(1) t1 by simp
    moreover have "list_all2 ?C (p # ps) (\<lparr>stored_probe = p, stored_rate = x\<rparr> # rows)"
      using rows(2) cap by auto
    ultimately show "\<exists>rows. ?T t rows \<and> list_all2 ?C (p # ps) rows"
      by blast
  next
    assume "\<exists>rows. ?T t rows \<and> list_all2 ?C (p # ps) rows"
    then obtain rows where T: "?T t rows" and C: "list_all2 ?C (p # ps) rows"
      by blast
    from C obtain r rs where rows: "rows = r # rs" and r: "?C p r" and rs: "list_all2 ?C ps rs"
      by (auto simp: list_all2_Cons1)
    from r obtain f fs m v where cap:
      "glob e d (imec_pattern p) = f # fs" "readMeta e f = Inr m" "m ''imSampRate'' = Some v"
      "float_column e v = Inr (stored_rate r)" and pr: "stored_probe r = p"
      by auto
    define t1 where "t1 = t\<lparr>ImecSamplingRate := ImecSamplingRate t @ [r]\<rparr>"
    have "r = \<lparr>stored_probe = p, stored_rate = stored_rate r\<rparr>"
      using pr by simp
    then have t1': "t1 = t\<lparr>ImecSamplingRate :=
        ImecSamplingRate t @ [\<lparr>stored_probe = p, stored_rate = stored_rate r\<rparr>]\<rparr>"
      by (simp add: t1_def)
    have step: "bindE (imec_row_of e d p) (\<lambda>r. insert1_imec e r t) = Inr t1"
      unfolding probe_step_Inr_iff using cap t1' by blast
    have "t' = t1\<lparr>ImecSamplingRate := ImecSamplingRate t1 @ rs\<rparr>"
      using T rows by (simp add: t1_def)
    with rs have "probe_loop e d ps t1 = (Inr (), t')"
      using Cons.IH[of t1] by blast
    with step show "?L (p # ps) t"
      unfolding probe_loop_Cons_Inr_iff by blast
  qed
qed

lemma probe_loop_normal_rows:
  assumes "probe_loop e d ps t = (Inr (), t')"
  shows "BehaviorSync t' = BehaviorSync t \<and>
     map stored_probe (ImecSamplingRate t') = map stored_probe (ImecSamplingRate t) @ ps"
proof -
  from assms obtain rows where t': "t' = t\<lparr>ImecSamplingRate := ImecSamplingRate t @ rows\<rparr>"
    and C0: "list_all2 (\<lambda>p r. stored_probe r = p \<and>
          (\<exists>f fs m v. glob e d (imec_pattern p) = f # fs \<and> readMeta e f = Inr m \<and>
             m ''imSampRate'' = Some v \<and> float_column e v = Inr (stored_rate r))) ps rows"
    unfolding probe_loop_Inr_iff by blast
  from C0 have C: "list_all2 (\<lambda>p r. stored_probe r = p) ps rows"
    by (rule list_all2_mono) simp
  from C have "map stored_probe rows = ps"
    by (induction ps rows rule: list_all2_induct) auto
  with t' show ?thesis by simp
qed

lemma probe_loop_append:
  "probe_loop e d ps t = (Inr (), t1) \<Longrightarrow> probe_loop e d (ps @ qs) t = probe_loop e d qs t1"
proof (induction ps arbitrary: t)
  case Nil
  then show ?case by simp
next
  case (Cons p ps)
  from Cons.prems obtain t0 where
    step: "bindE (imec_row_of e d p) (\<lambda>r. insert1_imec e r t) = Inr t0"
    and rest: "probe_loop e d ps t0 = (Inr (), t1)"
    unfolding probe_loop_Cons_Inr_iff by blast
  from Cons.IH[OF rest] step show ?case by simp
qed

lemma imec_row_of_cong:
  "glob e' = glob e \<Longrightarrow> readMeta e' = readMeta e \<Longrightarrow> imec_row_of e' d p = imec_row_of e d p"
  by (simp add: imec_row_of_def)

lemma probe_loop_cong:
  assumes "glob e' = glob e" and "readMeta e' = readMeta e" and "float_column e' = float_column e"
  shows "probe_loop e' d ps t = probe_loop e d ps t"
proof (induction ps arbitrary: t)
  case Nil
  show ?case by simp
next
  case (Cons p ps)
  have "imec_row_of e' d p = imec_row_of e d p"
    using assms(1,2) by (rule imec_row_of_cong)
  moreover have "insert1_imec e' r t = insert1_imec e r t" for r
    using assms(3) by (simp add: insert1_imec_def)
  ultimately show ?case
    using Cons.IH by (simp split: sum.splits)
qed

lemma py_int_fmul_zero: "py_int (fmul r rate (Fin 0)) = Inr i0 \<Longrightarrow> i0 = 0 \<and> (\<exists>x. rate = Fin x)"
  by (cases rate) auto

lemma missing0_fields:
  "fetch1_ephys_directory env_missing0 k = Inr ''dir''"
  "fetch_probe_insertions env_missing0 k = [demo_probe k 0, demo_probe k (Suc 0)]"
  "glob env_missing0 d pat = (if pat = ''*imec0/*.ap.bin'' then [] else demo_glob d pat)"
  "readMeta env_missing0 = demo_readMeta"
  "float_column env_missing0 = demo_column"
  by (simp_all add: env_missing0_def demo_fields)

lemma missing1_fields:
  "fetch1_ephys_directory env_missing1 k = Inr ''dir''"
  "fetch_probe_insertions env_missing1 k = [demo_probe k 0, demo_probe k (Suc 0)]"
  "glob env_missing1 d pat = (if pat = ''*imec1/*.ap.bin'' then [] else demo_glob d pat)"
  "readMeta env_missing1 = demo_readMeta"
  "float_column env_missing1 = demo_column"
  by (simp_all add: env_missing1_def demo_fields)

lemma bad_time_fields:
  "fetch1_ephys_directory env_bad_time k = Inr ''dir''"
  "glob env_bad_time = demo_glob"
  "readMeta env_bad_time f =
     (if f = ''a.nidq.bin''
      then Inr (map_of [(''fileTimeSecs'', Str ''abc''), (''niSampRate'', Str ''4'')])
      else demo_readMeta f)"
  "float_of_str env_bad_time = demo_float"
  by (simp_all add: env_bad_time_def demo_fields)

lemma bad_rate_fields:
  "fetch1_ephys_directory env_bad_rate k = Inr ''dir''"
  "fetch_probe_insertions env_bad_rate k = [demo_probe k 0, demo_probe k (Suc 0)]"
  "glob env_bad_rate = demo_glob"
  "readMeta env_bad_rate f =
     (if f = ''imec0/a.ap.bin'' then Inr (map_of [(''imSampRate'', Str ''abc'')])
      else demo_readMeta f)"
  "float_of_str env_bad_rate = demo_float"
  "float_column env_bad_rate = demo_column"
  by (simp_all add: env_bad_rate_def demo_fields)

lemma flat_fields:
  "fetch1_ephys_directory env_flat k = Inr ''dir''"
  "fetch_probe_insertions env_flat k = [demo_probe k 0, demo_probe k (Suc 0)]"
  "glob env_flat = demo_glob"
  "readMeta env_flat = demo_readMeta"
  "float_column env_flat = demo_column"
  by (simp_all add: env_flat_def demo_fields)

lemma zero_time_fields:
  "glob env_zero_time = demo_glob"
  "readMeta env_zero_time f = (if f = ''a.nidq.bin'' then Inr zero_meta else demo_readMeta f)"
  "SampRate env_zero_time = demo_SampRate"
  "makeMemMapRaw env_zero_time = (\<lambda>f m. Inr [[0, 2, 2, 0, 3, 1, 0, 2]])"
  "ExtractDigital env_zero_time = ExtractDigital_spec"
  "float_of_str env_zero_time = demo_float"
  "rnd env_zero_time = Fin"
  by (simp_all add: env_zero_time_def demo_fields)


lemmas glob_unfold = demo_glob_def demo_readMeta_def demo_imec_meta_def getitem_def

text \<open>The loop over probe 0 of the example session stores one row.\<close>

lemma demo_loop_probe0:
  "probe_loop demo_env ''dir'' [demo_probe k 0] t =
     (Inr (), t\<lparr>ImecSamplingRate :=
        ImecSamplingRate t @ [\<lparr>stored_probe = demo_probe k 0, stored_rate = Fin 30000\<rparr>]\<rparr>)"
  by (simp add: demo_imec_rows insert1_imec_def demo_fields demo_float_def)

subsection \<open>Square waves\<close>




















section \<open>The claims\<close>

subsection \<open>C1: a probe whose binary file is missing\<close>

text \<open>
  Claim C1, as amended. \<^verbatim>\<open>make\<close> has no handler around the loop body. When the
  primary stream has been processed, the probes enumerated before some probe have been
  processed and inserted, and the glob of that probe finds no file, the indexing
  \<^verbatim>\<open>[0]\<close> raises \<^verbatim>\<open>IndexError\<close> and the exception leaves \<^verbatim>\<open>make\<close>: the
  primary row and the rows of the probes before that probe have been inserted, and no
  row is inserted for that probe or for any probe after it.
\<close>

theorem missing_probe_file_raises:
  assumes "get_session_directory e k = Inr d" and "primary e d k = Inr r"
    and "fetch_probe_insertions e k = ps @ p # qs"
    and "probe_loop e d ps (t\<lparr>BehaviorSync := BehaviorSync t @ [r]\<rparr>) = (Inr (), t1)"
    and "glob e d (imec_pattern p) = []"
  shows "make e k t = (Inl IndexError, t1) \<and>
     BehaviorSync t1 = BehaviorSync t @ [r] \<and>
     map stored_probe (ImecSamplingRate t1) = map stored_probe (ImecSamplingRate t) @ ps"
proof -
  have "imec_row_of e d p = Inl IndexError"
    using assms(5) by (simp add: imec_row_of_def)
  then have "probe_loop e d (p # qs) t1 = (Inl IndexError, t1)"
    by simp
  then have "probe_loop e d (ps @ p # qs) (t\<lparr>BehaviorSync := BehaviorSync t @ [r]\<rparr>) =
      (Inl IndexError, t1)"
    using probe_loop_append[OF assms(4), of "p # qs"] by simp
  then have "make e k t = (Inl IndexError, t1)"
    using assms(1-3) by (simp add: make_def)
  then show ?thesis
    using probe_loop_normal_rows[OF assms(4)] by simp
qed

text \<open>The theorem at the session whose probe 1 has no binary file: the row of probe 0 is there, the call ends in \<^verbatim>\<open>IndexError\<close>.\<close>

theorem missing_probe_file_raises_witness:
  "make env_missing1 [] no_tables =
     (Inl IndexError,
      \<lparr>BehaviorSync = [demo_row []],
       ImecSamplingRate = [\<lparr>stored_probe = demo_probe [] 0, stored_rate = Fin 30000\<rparr>]\<rparr>)"
proof -
  have 1: "get_session_directory env_missing1 [] = Inr ''dir''"
    by (simp add: get_session_directory_def missing1_fields)
  have 3: "fetch_probe_insertions env_missing1 [] = [demo_probe [] 0] @ demo_probe [] (Suc 0) # []"
    by (simp add: missing1_fields)
  have 4: "probe_loop env_missing1 ''dir'' [demo_probe [] 0]
      (no_tables\<lparr>BehaviorSync := BehaviorSync no_tables @ [demo_row []]\<rparr>) =
      (Inr (), \<lparr>BehaviorSync = [demo_row []],
         ImecSamplingRate = [\<lparr>stored_probe = demo_probe [] 0, stored_rate = Fin 30000\<rparr>]\<rparr>)"
    by (simp add: missing1_row0 insert1_imec_def missing1_fields demo_float_def no_tables_def)
  have 5: "glob env_missing1 ''dir'' (imec_pattern (demo_probe [] (Suc 0))) = []"
    by (simp add: missing1_fields imec_pattern_def demo_probe_def str_nat_1)
  show ?thesis
    using missing_probe_file_raises[OF 1 missing1_primary 3 4 5] by simp
qed

text \<open>Claim C1 as stated fails at the session whose probe 0 has no binary file: the file of probe 1 is present, yet the table holds no row for it, and the call does not return but raises.\<close>

theorem present_probe_without_row:
  "glob env_missing0 ''dir'' (imec_pattern (demo_probe [] (Suc 0))) = [''imec1/a.ap.bin''] \<and>
   make env_missing0 [] no_tables =
     (Inl IndexError, \<lparr>BehaviorSync = [demo_row []], ImecSamplingRate = []\<rparr>)"
  by (simp add: make_def get_session_directory_def missing0_primary missing0_fields
      probe_unfold demo_glob_def no_tables_def)

subsection \<open>C2: which indices edge detection returns\<close>

text \<open>
  Claim C2, as amended. The iteration index is the ascending list of every \<open>j\<close> with
  \<^verbatim>\<open>abs(trace[j+1] - trace[j]) > 0.5\<close>, where \<open>trace\<close> is row 1 of the digital
  array: the position of the last sample before each rising or falling edge, counted
  from the start of the trace. Each index is one less than the index that the claim
  names.
\<close>

theorem iteration_index_before_transition:
  "row1 a = Inr trace \<Longrightarrow>
     iteration_index a =
       Inr (map int (filter (\<lambda>j. \<bar>real_of_int (trace ! Suc j) - real_of_int (trace ! j)\<bar> > 1/2)
              [0..<length trace - 1])) \<and>
     iteration_index a = Inr (map (\<lambda>i. i - 1) (spec_edges trace))"
  using edges_spec_edges[of trace] by (simp add: iteration_index_def edges_eq)

text \<open>The theorem at a trace with one rising edge.\<close>

theorem iteration_index_before_transition_witness:
  "iteration_index [[0, 0, 0], [0, 1, 1]] = Inr [0] \<and>
   iteration_index [[0, 0, 0], [0, 1, 1]] = Inr (map (\<lambda>i. i - 1) (spec_edges [0, 1, 1]))"
proof -
  have "row1 [[0, 0, 0], [0, 1, 1]] = Inr [0, 1, 1]" by simp
  from iteration_index_before_transition[OF this] show ?thesis
    by (simp add: spec_edges_def)
qed

text \<open>Claim C2 as stated fails at the trace \<open>0 1\<close>: the only index \<open>i\<close> with \<^verbatim>\<open>abs(trace[i] - trace[i-1]) > 0.5\<close> is 1, and the code returns 0.\<close>

theorem index_off_by_one:
  "iteration_index [[0, 0], [0, 1]] = Inr [0] \<and> spec_edges [0, 1] = [1]"
  by (simp add: iteration_index_def edges_def np_where_def np_abs_gt_def np_double_def
      spec_edges_def)

subsection \<open>C3: the edges of a square wave\<close>




subsection \<open>C4: five cycles in ten seconds at 1000 Hz\<close>




subsection \<open>C5: numeric values of the sidecar metadata\<close>

text \<open>
  Claim C5, as amended. The value of \<^verbatim>\<open>fileTimeSecs\<close> is converted by
  \<^verbatim>\<open>np.float\<close>: when it is a string that is not a numeral, \<^verbatim>\<open>make\<close> raises
  \<^verbatim>\<open>ValueError\<close> (the code has no \<^verbatim>\<open>MetadataParseError\<close>) and inserts nothing.
  \<^verbatim>\<open>make\<close> applies no numeric parse to the rate of a probe stream: the value found
  under \<^verbatim>\<open>imSampRate\<close> is handed to \<^verbatim>\<open>insert1\<close> as it was read, and it is the
  insert into the float column that stores its numeric value or raises, in which case
  the exception of the insert leaves \<^verbatim>\<open>make\<close> and no row is stored for the probe.
\<close>

theorem numeric_values_of_sidecar:
  "(get_session_directory e k = Inr d \<and> first_match (glob e d ''*nidq.bin*'') = Inr f \<and>
    readMeta e f = Inr m \<and> m ''fileTimeSecs'' = Some (Str s) \<and> float_of_str e s = None
      \<longrightarrow> make e k t = (Inl ValueError, t)) \<and>
   (first_match (glob e d (imec_pattern p)) = Inr g \<and> readMeta e g = Inr im \<and>
    im ''imSampRate'' = Some v
      \<longrightarrow> probe_loop e d (p # ps) t =
            (case float_column e v of
               Inl err \<Rightarrow> (Inl err, t)
             | Inr x \<Rightarrow>
                 probe_loop e d ps
                   (t\<lparr>ImecSamplingRate :=
                        ImecSamplingRate t @ [\<lparr>stored_probe = p, stored_rate = x\<rparr>]\<rparr>)))"
proof (intro conjI impI)
  assume "get_session_directory e k = Inr d \<and> first_match (glob e d ''*nidq.bin*'') = Inr f \<and>
    readMeta e f = Inr m \<and> m ''fileTimeSecs'' = Some (Str s) \<and> float_of_str e s = None"
  then have "prepare e d = Inl ValueError" and "get_session_directory e k = Inr d"
    by (simp_all add: prepare_def getitem_def)
  then show "make e k t = (Inl ValueError, t)"
    by (simp add: make_def primary_def digital_array_of_def)
next
  assume "first_match (glob e d (imec_pattern p)) = Inr g \<and> readMeta e g = Inr im \<and>
    im ''imSampRate'' = Some v"
  then have "imec_row_of e d p = Inr \<lparr>row_probe = p, ephys_sampling_rate = v\<rparr>"
    by (simp add: imec_row_of_def getitem_def)
  then show "probe_loop e d (p # ps) t =
            (case float_column e v of
               Inl err \<Rightarrow> (Inl err, t)
             | Inr x \<Rightarrow>
                 probe_loop e d ps
                   (t\<lparr>ImecSamplingRate :=
                        ImecSamplingRate t @ [\<lparr>stored_probe = p, stored_rate = x\<rparr>]\<rparr>))"
    by (simp add: insert1_imec_def split: sum.splits)
qed

text \<open>The theorem at the session whose \<^verbatim>\<open>fileTimeSecs\<close> reads \<^verbatim>\<open>abc\<close>, and at the session whose probe 0 declares \<^verbatim>\<open>imSampRate=abc\<close>: there the insert raises and nothing is stored.\<close>

theorem numeric_values_of_sidecar_witness:
  "make env_bad_time [] no_tables = (Inl ValueError, no_tables) \<and>
   probe_loop env_bad_rate ''dir'' [demo_probe [] 0] no_tables =
     (Inl (HelperError ''DataError''), no_tables)"
proof -
  have a: "make env_bad_time [] no_tables = (Inl ValueError, no_tables)"
    using numeric_values_of_sidecar[of env_bad_time "[]" "''dir''" "''a.nidq.bin''"
      "map_of [(''fileTimeSecs'', Str ''abc''), (''niSampRate'', Str ''4'')]" "''abc''"
      no_tables]
    by (simp add: get_session_directory_def bad_time_fields demo_float_def demo_glob_def)
  have b: "probe_loop env_bad_rate ''dir'' [demo_probe [] 0] no_tables =
     (Inl (HelperError ''DataError''), no_tables)"
    using numeric_values_of_sidecar[of env_bad_rate "[]" "''dir''" "''a.nidq.bin''" Map.empty "''x''"
      no_tables "demo_probe [] 0" "''imec0/a.ap.bin''" "map_of [(''imSampRate'', Str ''abc'')]"
      "Str ''abc''" "[]"]
    by (simp add: bad_rate_fields demo_float_def demo_glob_def imec_pattern_def demo_probe_def
        str_nat_0)
  from a b show ?thesis by simp
qed

text \<open>Claim C5 as stated fails at the session whose \<^verbatim>\<open>fileTimeSecs\<close> reads \<^verbatim>\<open>abc\<close>: the conversion of line 93 fails with the built-in \<^verbatim>\<open>ValueError\<close>, which is not a \<^verbatim>\<open>MetadataParseError\<close>; and at the session whose probe 0 declares \<^verbatim>\<open>imSampRate=abc\<close> the row handed to \<^verbatim>\<open>insert1\<close> holds the string unparsed.\<close>

theorem non_numeric_duration_raises_ValueError:
  "make env_bad_time [] no_tables = (Inl ValueError, no_tables) \<and>
   imec_row_of env_bad_rate ''dir'' (demo_probe [] 0) =
     Inr \<lparr>row_probe = demo_probe [] 0, ephys_sampling_rate = Str ''abc''\<rparr>"
  by (simp add: make_def get_session_directory_def primary_def digital_array_of_def prepare_def
      bad_time_fields bad_rate_fields demo_glob_def demo_float_def getitem_def
      imec_row_of_def imec_pattern_def demo_probe_def str_nat_0)

subsection \<open>C6: the iteration index is strictly increasing\<close>

text \<open>
  Claim C6. Whenever the primary stream yields a row, the iteration index of that row is
  strictly increasing and all its elements are non-negative integers.
\<close>

theorem iteration_index_strictly_increasing:
  "primary e d k = Inr r \<Longrightarrow>
     sorted_wrt (<) (iteration_index_nidq r) \<and> (\<forall>i \<in> set (iteration_index_nidq r). 0 \<le> i)"
  by (auto simp: primary_Inr_iff edges_sorted edges_nonneg)

text \<open>The theorem at the example session.\<close>

theorem iteration_index_strictly_increasing_witness:
  "primary demo_env ''dir'' [] = Inr (demo_row []) \<and>
   sorted_wrt (<) (iteration_index_nidq (demo_row [])) \<and>
   list_all ((\<le>) 0) (iteration_index_nidq (demo_row []))"
  using iteration_index_strictly_increasing[OF demo_primary[of "[]"]] demo_primary[of "[]"]
  by (simp add: list_all_iff)

subsection \<open>C7: a trace with no transition\<close>

text \<open>
  Claim C7. When no two consecutive samples of line 1 differ by more than 0.5 in absolute
  value, edge detection yields the empty sequence, the primary row is produced with an
  empty iteration index, and \<^verbatim>\<open>make\<close> inserts it and goes on to the probe loop: the
  empty index raises nothing.
\<close>

theorem no_transition_empty_index:
  assumes "get_session_directory e k = Inr d"
    and "digital_array_of e d = Inr (rate, a)" and "row1 a = Inr tr"
    and "\<forall>i. Suc i < length tr \<longrightarrow> \<bar>real_of_int (tr ! Suc i) - real_of_int (tr ! i)\<bar> \<le> 1/2"
  shows "iteration_index a = Inr [] \<and>
     primary e d k = Inr \<lparr>row_key = k, nidq_sampling_rate = rate, iteration_index_nidq = []\<rparr> \<and>
     make e k t = probe_loop e d (fetch_probe_insertions e k)
       (t\<lparr>BehaviorSync := BehaviorSync t @
          [\<lparr>row_key = k, nidq_sampling_rate = rate, iteration_index_nidq = []\<rparr>]\<rparr>)"
proof -
  have "\<not> \<bar>real_of_int (tr ! Suc j) - real_of_int (tr ! j)\<bar> > 1/2" if "j < length tr - 1" for j
  proof -
    from that have "Suc j < length tr" by simp
    with assms(4) show ?thesis by (simp add: not_less)
  qed
  then have "edges tr = []"
    by (simp add: edges_eq filter_empty_conv)
  then have "primary e d k = Inr \<lparr>row_key = k, nidq_sampling_rate = rate, iteration_index_nidq = []\<rparr>"
    using assms(2,3) by (simp add: primary_Inr_iff)
  then show ?thesis
    using assms(1,3) \<open>edges tr = []\<close> by (simp add: make_def iteration_index_def)
qed

text \<open>The theorem at the session whose line 1 stays low while line 0 changes.\<close>

theorem no_transition_empty_index_witness:
  "primary env_flat ''dir'' [] =
     Inr \<lparr>row_key = [], nidq_sampling_rate = Fin 4, iteration_index_nidq = []\<rparr> \<and>
   make env_flat [] no_tables =
     (Inr (),
      \<lparr>BehaviorSync = [\<lparr>row_key = [], nidq_sampling_rate = Fin 4, iteration_index_nidq = []\<rparr>],
       ImecSamplingRate =
         [\<lparr>stored_probe = demo_probe [] 0, stored_rate = Fin 30000\<rparr>,
          \<lparr>stored_probe = demo_probe [] (Suc 0), stored_rate = Fin 30000\<rparr>]\<rparr>)"
proof -
  have 1: "get_session_directory env_flat [] = Inr ''dir''"
    by (simp add: get_session_directory_def flat_fields)
  have 3: "row1 [[0, 1, 1, 0, 1, 0, 0, 1], [0, 0, 0, 0, 0, 0, 0, 0], [0, 0, 0, 0, 0, 0, 0, 0],
      [0, 0, 0, 0, 0, 0, 0, 0], [0, 0, 0, 0, 0, 0, 0, 0], [0, 0, 0, 0, 0, 0, 0, 0],
      [0, 0, 0, 0, 0, 0, 0, 0], [0, 0, 0, 0, 0, 0, 0, 0]] = Inr [0, 0, 0, 0, 0, 0, 0, 0::int]"
    by simp
  have 4: "\<forall>i. Suc i < length [0, 0, 0, 0, 0, 0, 0, 0::int] \<longrightarrow>
      \<bar>real_of_int ([0, 0, 0, 0, 0, 0, 0, 0] ! Suc i) - real_of_int ([0, 0, 0, 0, 0, 0, 0, 0] ! i)\<bar> \<le> 1/2"
  proof (intro allI impI)
    fix i assume "Suc i < length [0, 0, 0, 0, 0, 0, 0, 0::int]"
    then have "[0, 0, 0, 0, 0, 0, 0, 0::int] ! Suc i \<in> set [0, 0, 0, 0, 0, 0, 0, 0::int]"
      and "[0, 0, 0, 0, 0, 0, 0, 0::int] ! i \<in> set [0, 0, 0, 0, 0, 0, 0, 0::int]"
      by (simp_all only: nth_mem Suc_lessD)
    then have "[0, 0, 0, 0, 0, 0, 0, 0::int] ! Suc i = 0" and "[0, 0, 0, 0, 0, 0, 0, 0::int] ! i = 0"
      by simp_all
    then show "\<bar>real_of_int ([0, 0, 0, 0, 0, 0, 0, 0] ! Suc i) - real_of_int ([0, 0, 0, 0, 0, 0, 0, 0] ! i)\<bar> \<le> 1/2"
      by simp
  qed
  show ?thesis
    using no_transition_empty_index[OF 1 flat_digital 3 4, of no_tables]
    by (simp add: flat_fields probe_unfold glob_unfold insert1_imec_def demo_float_def
        no_tables_def)
qed

subsection \<open>C8: what is read from a probe stream\<close>

text \<open>
  Claim C8. The probe loop depends on the environment through the glob,
  \<^verbatim>\<open>readMeta\<close> and the float column of the part table alone: neither the memory map
  nor the digital extraction (nor the rate derivation of the primary stream) has any
  influence on it, so no extraction or edge detection is run on a probe's binary data.
  And the loop returns normally exactly when every probe, in order, gets one row that
  holds the sampling rate declared under \<^verbatim>\<open>imSampRate\<close> in the sidecar of the first
  file matching the probe's pattern: these rows, and nothing else, are what it adds.
\<close>

theorem probe_rows_from_sidecar_only:
  "(glob e' = glob e \<and> readMeta e' = readMeta e \<and> float_column e' = float_column e \<longrightarrow>
      probe_loop e' d ps t = probe_loop e d ps t) \<and>
   (probe_loop e d ps t = (Inr (), t') \<longleftrightarrow>
      (\<exists>rows. t' = t\<lparr>ImecSamplingRate := ImecSamplingRate t @ rows\<rparr> \<and>
         list_all2 (\<lambda>p r. stored_probe r = p \<and>
           (\<exists>f fs m v. glob e d (imec_pattern p) = f # fs \<and> readMeta e f = Inr m \<and>
              m ''imSampRate'' = Some v \<and> float_column e v = Inr (stored_rate r))) ps rows))"
proof (intro conjI impI)
  assume same: "glob e' = glob e \<and> readMeta e' = readMeta e \<and> float_column e' = float_column e"
  show "probe_loop e' d ps t = probe_loop e d ps t"
    by (rule probe_loop_cong) (simp_all add: same)
qed (rule probe_loop_Inr_iff)

text \<open>The theorem at the example session and at the one with another recording: probe 0 gets the row with its declared rate, whatever the recording holds.\<close>

theorem probe_rows_from_sidecar_only_witness:
  "probe_loop env_other_lines ''dir'' [demo_probe [] 0] no_tables =
     probe_loop demo_env ''dir'' [demo_probe [] 0] no_tables \<and>
   probe_loop demo_env ''dir'' [demo_probe [] 0] no_tables =
     (Inr (), no_tables\<lparr>ImecSamplingRate := ImecSamplingRate no_tables @
        [\<lparr>stored_probe = demo_probe [] 0, stored_rate = Fin 30000\<rparr>]\<rparr>)"
proof -
  note t = probe_rows_from_sidecar_only[of env_other_lines demo_env "''dir''" "[demo_probe [] 0]"
      no_tables
      "no_tables\<lparr>ImecSamplingRate := ImecSamplingRate no_tables @
        [\<lparr>stored_probe = demo_probe [] 0, stored_rate = Fin 30000\<rparr>]\<rparr>"]
  have same: "glob env_other_lines = glob demo_env \<and> readMeta env_other_lines = readMeta demo_env \<and>
      float_column env_other_lines = float_column demo_env"
    by (simp add: env_other_lines_def)
  have cap: "glob demo_env ''dir'' (imec_pattern (demo_probe [] 0)) = [''imec0/a.ap.bin''] \<and>
      readMeta demo_env ''imec0/a.ap.bin'' = Inr demo_imec_meta \<and>
      demo_imec_meta ''imSampRate'' = Some (Str ''30000'') \<and>
      float_column demo_env (Str ''30000'') = Inr (Fin 30000)"
    by (simp add: demo_fields demo_glob_def demo_readMeta_def demo_imec_meta_def demo_float_def
        imec_pattern_def demo_probe_def str_nat_0)
  have rows: "\<exists>rows. no_tables\<lparr>ImecSamplingRate := ImecSamplingRate no_tables @
        [\<lparr>stored_probe = demo_probe [] 0, stored_rate = Fin 30000\<rparr>]\<rparr> =
        no_tables\<lparr>ImecSamplingRate := ImecSamplingRate no_tables @ rows\<rparr> \<and>
      list_all2 (\<lambda>p r. stored_probe r = p \<and>
           (\<exists>f fs m v. glob demo_env ''dir'' (imec_pattern p) = f # fs \<and>
              readMeta demo_env f = Inr m \<and> m ''imSampRate'' = Some v \<and>
              float_column demo_env v = Inr (stored_rate r))) [demo_probe [] 0] rows"
  proof (intro exI conjI)
    show "list_all2 (\<lambda>p r. stored_probe r = p \<and>
           (\<exists>f fs m v. glob demo_env ''dir'' (imec_pattern p) = f # fs \<and>
              readMeta demo_env f = Inr m \<and> m ''imSampRate'' = Some v \<and>
              float_column demo_env v = Inr (stored_rate r))) [demo_probe [] 0]
        [\<lparr>stored_probe = demo_probe [] 0, stored_rate = Fin 30000\<rparr>]"
      using cap by auto
  qed (rule refl)
  from t same rows show ?thesis by blast
qed

subsection \<open>C9: the sample range handed to the extraction\<close>

text \<open>
  Claim C9. Whenever lines 88 to 102 succeed, \<^verbatim>\<open>ExtractDigital\<close> is called with
  first sample index 0 (\<^verbatim>\<open>int(rate * 0)\<close> is 0 whenever it does not raise), last
  sample index \<^verbatim>\<open>int(rate * t_end) - 1\<close>, digital word 0 and lines 0 to 7. When
  \<^verbatim>\<open>fileTimeSecs\<close> is 0 the last sample index is \<open>-1\<close>, and this range is handed
  to the extraction all the same.
\<close>

theorem sample_range_of_call:
  assumes "first_match (glob e d ''*nidq.bin*'') = Inr f" and "readMeta e f = Inr m"
    and "getitem m ''fileTimeSecs'' = Inr v" and "np_float (float_of_str e) v = Inr t_end"
    and "SampRate e m = Inr rate"
    and "py_int (fmul (rnd e) rate (Fin 0)) = Inr i0"
    and "py_int (fmul (rnd e) rate t_end) = Inr l"
    and "makeMemMapRaw e f m = Inr nidq_raw_data"
  shows "i0 = 0 \<and>
     digital_array_of e d =
       bindE (ExtractDigital e nidq_raw_data 0 (l - 1) 0 [0, 1, 2, 3, 4, 5, 6, 7] m)
         (\<lambda>a. Inr (rate, a)) \<and>
     (t_end = Fin 0 \<longrightarrow> l - 1 = -1)"
proof -
  have i0: "i0 = 0" and fin: "\<exists>x. rate = Fin x"
    using py_int_fmul_zero[OF assms(6)] by auto
  have "prepare e d = Inr (rate,
      \<lparr>call_raw = nidq_raw_data, first_sample_index = 0, last_sample_index = l - 1, dw = 0,
       d_line_list = [0, 1, 2, 3, 4, 5, 6, 7], call_meta = m\<rparr>)"
    using assms i0 by (simp add: prepare_def)
  then have "digital_array_of e d =
       bindE (ExtractDigital e nidq_raw_data 0 (l - 1) 0 [0, 1, 2, 3, 4, 5, 6, 7] m)
         (\<lambda>a. Inr (rate, a))"
    by (simp add: digital_array_of_def call_ExtractDigital_def)
  moreover have "l - 1 = -1" if "t_end = Fin 0"
    using assms(7) fin that by auto
  ultimately show ?thesis using i0 by simp
qed

text \<open>The theorem at the session that declares zero seconds.\<close>

theorem sample_range_of_call_witness:
  "digital_array_of env_zero_time ''dir'' =
     bindE (ExtractDigital_spec [[0, 2, 2, 0, 3, 1, 0, 2]] 0 (- 1) 0 [0, 1, 2, 3, 4, 5, 6, 7] zero_meta)
       (\<lambda>a. Inr (Fin 4, a))"
proof -
  have 1: "first_match (glob env_zero_time ''dir'' ''*nidq.bin*'') = Inr ''a.nidq.bin''"
    by (simp add: zero_time_fields demo_glob_def demo_float_def)
  have 2: "readMeta env_zero_time ''a.nidq.bin'' = Inr zero_meta"
    by (simp add: zero_time_fields)
  have 3: "getitem zero_meta ''fileTimeSecs'' = Inr (Str ''0'')"
    by (simp add: zero_meta_def getitem_def)
  have 4: "np_float (float_of_str env_zero_time) (Str ''0'') = Inr (Fin 0)"
    by (simp add: zero_time_fields demo_glob_def demo_float_def)
  have 5: "SampRate env_zero_time zero_meta = Inr (Fin 4)"
    by (simp add: zero_time_fields demo_SampRate_def demo_float_def getitem_def zero_meta_def)
  have 6: "py_int (fmul (rnd env_zero_time) (Fin 4) (Fin 0)) = Inr 0"
    by simp
  have 8: "makeMemMapRaw env_zero_time ''a.nidq.bin'' zero_meta = Inr [[0, 2, 2, 0, 3, 1, 0, 2]]"
    by (simp add: zero_time_fields demo_glob_def demo_float_def)
  show ?thesis
    using sample_range_of_call[OF 1 2 3 4 5 6 6 8] by (simp add: zero_time_fields)
qed

subsection \<open>C10: the artifact depends on line 1 only\<close>

text \<open>
  Claim C10. Two recordings with the same sampling rate whose digital arrays agree on
  row 1 give the same primary row (sampling rate and iteration index), whatever lines 0
  and 2 to 7 hold.
\<close>

theorem artifact_depends_on_line_1_only:
  assumes "digital_array_of e1 d1 = Inr (rate, a1)" and "digital_array_of e2 d2 = Inr (rate, a2)"
    and "row1 a1 = row1 a2"
  shows "primary e1 d1 k = primary e2 d2 k"
  using assms by (simp add: primary_def iteration_index_def)

text \<open>The theorem at two recordings that differ on lines 0 and 2.\<close>

theorem artifact_depends_on_line_1_only_witness:
  "primary demo_env ''dir'' [] = primary env_other_lines ''dir'' []"
  by (rule artifact_depends_on_line_1_only[OF demo_digital other_lines_digital]) simp

end
